theory Spec2Isabelle
  imports Main "HOL-Library.Sublist" "HOL-Library.List_Lexorder"
begin

section \<open>Book suggestion app: catalog fetcher and query engine\<close>

text \<open>
  A shallow embedding of \<^verbatim>\<open>Book_suggestion_App_Sreeja.py\<close>: the function
  \<^verbatim>\<open>fetch_books\<close>, the start-up code under \<^verbatim>\<open>__main__\<close> and the two
  slots \<^verbatim>\<open>apply_filter\<close> and \<^verbatim>\<open>suggest_random\<close> of \<^verbatim>\<open>MainWindow\<close>.

  A Python string is the list of its code points. Python integers are \<^typ>\<open>int\<close>. A
  data frame is the list of its rows, in row order; a frame built from an empty list of
  rows has no columns, which the model keeps apart where the source reads a column.
\<close>

subsection \<open>Strings and the runtime\<close>

type_synonym unicode = "nat list"

text \<open>A string literal of the source, as code points.\<close>

definition str :: "string \<Rightarrow> unicode" where
  "str s = map of_char s"

datatype error = RuntimeError | KeyError | ValueError | ReError | Int64Overflow

text \<open>
  What the interpreter and its libraries do is written out below for the code points
  under 256 and for the regular expressions of the fragment described further on. The
  rest is a parameter of the model, the runtime: the character tables above 255 (white
  space, digits, the decimal value of a digit, and a representative of each class of
  characters that \<^verbatim>\<open>re.IGNORECASE\<close> identifies), the limit on the number of digits
  that \<^verbatim>\<open>int\<close> converts (\<open>0\<close> for none), and what \<^verbatim>\<open>re.compile\<close> with
  \<^verbatim>\<open>re.IGNORECASE\<close> does with a pattern outside the fragment: either it raises, or
  it gives the test \<^verbatim>\<open>search(s) is not None\<close>.
\<close>

record runtime =
  uni_isspace :: "nat \<Rightarrow> bool"
  uni_isdigit :: "nat \<Rightarrow> bool"
  uni_decimal :: "nat \<Rightarrow> nat option"
  uni_fold :: "nat \<Rightarrow> nat"
  max_str_digits :: nat
  re_other :: "unicode \<Rightarrow> error + (unicode \<Rightarrow> bool)"

text \<open>\<^verbatim>\<open>str.isspace\<close> of one character, which \<^verbatim>\<open>strip\<close> and \<^verbatim>\<open>int\<close> use.\<close>

definition isspace_char :: "runtime \<Rightarrow> nat \<Rightarrow> bool" where
  "isspace_char R c \<longleftrightarrow>
     (if c < 256 then c \<in> {9, 10, 11, 12, 13, 28, 29, 30, 31, 32, 133, 160}
      else uni_isspace R c)"

text \<open>
  \<^verbatim>\<open>str.isdigit\<close> of one character: under 256 the ten decimal digits and the
  superscripts two, three and one.
\<close>

definition isdigit_char :: "runtime \<Rightarrow> nat \<Rightarrow> bool" where
  "isdigit_char R c \<longleftrightarrow>
     (if c < 256 then (48 \<le> c \<and> c \<le> 57) \<or> c \<in> {178, 179, 185} else uni_isdigit R c)"

text \<open>\<^verbatim>\<open>str.isdigit\<close>: every character is a digit and there is at least one.\<close>

definition isdigit :: "runtime \<Rightarrow> unicode \<Rightarrow> bool" where
  "isdigit R s \<longleftrightarrow> s \<noteq> [] \<and> list_all (isdigit_char R) s"

text \<open>The value of a character that \<^verbatim>\<open>int\<close> reads as a decimal digit.\<close>

definition decimal_char :: "runtime \<Rightarrow> nat \<Rightarrow> nat option" where
  "decimal_char R c =
     (if c < 256 then (if 48 \<le> c \<and> c \<le> 57 then Some (c - 48) else None)
      else uni_decimal R c)"

text \<open>
  The representative of a character among those that \<^verbatim>\<open>re.IGNORECASE\<close> takes for
  the same: under 256 the lower-case letter.
\<close>

definition fold_char :: "runtime \<Rightarrow> nat \<Rightarrow> nat" where
  "fold_char R c =
     (if c < 256
      then (if (65 \<le> c \<and> c \<le> 90) \<or> (192 \<le> c \<and> c \<le> 222 \<and> c \<noteq> 215) then c + 32 else c)
      else uni_fold R c)"

text \<open>A string without the characters of a class at its two ends.\<close>

definition strip_with :: "(nat \<Rightarrow> bool) \<Rightarrow> unicode \<Rightarrow> unicode" where
  "strip_with space s = rev (dropWhile space (rev (dropWhile space s)))"

text \<open>\<^verbatim>\<open>s.strip()\<close>.\<close>

definition strip :: "runtime \<Rightarrow> unicode \<Rightarrow> unicode" where
  "strip R s = strip_with (isspace_char R) s"

text \<open>
  The white space that \<^verbatim>\<open>int\<close> passes over at the two ends of a string: that of
  \<^verbatim>\<open>str.isspace\<close> but for the four separators 28 to 31.
\<close>

definition int_space :: "runtime \<Rightarrow> nat \<Rightarrow> bool" where
  "int_space R c \<longleftrightarrow> isspace_char R c \<and> \<not> (28 \<le> c \<and> c \<le> 31)"

text \<open>
  The digits of an integer literal accepted by \<^verbatim>\<open>int\<close>: decimal digits, with
  single underscores allowed between two digits.
\<close>

fun int_body_ok :: "runtime \<Rightarrow> unicode \<Rightarrow> bool" where
  "int_body_ok R [] = False"
| "int_body_ok R [c] = (decimal_char R c \<noteq> None)"
| "int_body_ok R (c # d # ds) =
     (decimal_char R c \<noteq> None \<and> (if d = 95 then int_body_ok R ds else int_body_ok R (d # ds)))"

definition digits_value :: "runtime \<Rightarrow> unicode \<Rightarrow> nat" where
  "digits_value R ds =
     foldl (\<lambda>a c. 10 * a + (case decimal_char R c of None \<Rightarrow> 0 | Some v \<Rightarrow> v)) 0 ds"

text \<open>
  \<^verbatim>\<open>int\<close> refuses more digits than the limit of the interpreter, which it consults
  for more than 640 digits.
\<close>

definition too_long :: "runtime \<Rightarrow> nat \<Rightarrow> bool" where
  "too_long R n \<longleftrightarrow> 640 < n \<and> max_str_digits R \<noteq> 0 \<and> max_str_digits R < n"

definition int_body :: "runtime \<Rightarrow> unicode \<Rightarrow> int option" where
  "int_body R s =
     (let ds = filter (\<lambda>c. c \<noteq> 95) s
      in if int_body_ok R s \<and> \<not> too_long R (length ds)
         then Some (int (digits_value R ds)) else None)"

text \<open>\<^verbatim>\<open>int(s)\<close> on a string; \<open>None\<close> is \<^verbatim>\<open>ValueError\<close>.\<close>

definition py_int :: "runtime \<Rightarrow> unicode \<Rightarrow> int option" where
  "py_int R s =
     (case strip_with (int_space R) s of
        [] \<Rightarrow> None
      | c # cs \<Rightarrow>
          (if c = 45 then map_option uminus (int_body R cs)
           else if c = 43 then int_body R cs
           else int_body R (c # cs)))"

text \<open>
  \<^verbatim>\<open>s.split(sep)\<close> for a separator \<open>c # cs\<close>: the segments between the
  occurrences of the separator, found from left to right. The accumulator holds the
  current segment, reversed.
\<close>

function split_acc :: "nat \<Rightarrow> unicode \<Rightarrow> unicode \<Rightarrow> unicode \<Rightarrow> unicode list" where
  "split_acc c cs acc [] = [rev acc]"
| "split_acc c cs acc (x # xs) =
     (if x = c \<and> prefix cs xs
      then rev acc # split_acc c cs [] (drop (length cs) xs)
      else split_acc c cs (x # acc) xs)"
  by pat_completeness auto
termination
  by (relation "measure (\<lambda>(c, cs, acc, s). length s)") auto

definition split :: "unicode \<Rightarrow> nat \<Rightarrow> unicode \<Rightarrow> unicode list" where
  "split s c cs = split_acc c cs [] s"

text \<open>\<^verbatim>\<open>sep.join(xs)\<close>.\<close>

fun join :: "unicode \<Rightarrow> unicode list \<Rightarrow> unicode" where
  "join sep [] = []"
| "join sep [x] = x"
| "join sep (x # y # ys) = x @ sep @ join sep (y # ys)"

text \<open>\<^verbatim>\<open>str(n)\<close> for an integer, as an f-string prints it.\<close>

function digits_of_nat :: "nat \<Rightarrow> unicode" where
  "digits_of_nat n =
     (if n < 10 then [48 + n] else digits_of_nat (n div 10) @ [48 + n mod 10])"
  by pat_completeness auto
termination
  by (relation "measure (\<lambda>n. n)") auto

definition str_of_int :: "int \<Rightarrow> unicode" where
  "str_of_int i = (if i < 0 then 45 # digits_of_nat (nat (- i)) else digits_of_nat (nat i))"

subsection \<open>Regular expressions\<close>

text \<open>
  \<^verbatim>\<open>Series.str.contains(pat, case=False, na=False)\<close> leaves \<^verbatim>\<open>regex\<close> at its
  default \<^verbatim>\<open>True\<close>: the pattern is compiled with \<^verbatim>\<open>re.IGNORECASE\<close> and searched
  for in every value. The fragment written out here is that of the patterns made of
  ordinary characters, the dot and parentheses. With balanced parentheses such a pattern
  is a sequence of atoms, a group adding nothing to what is matched; with unbalanced
  ones \<^verbatim>\<open>re.compile\<close> raises \<^verbatim>\<open>re.error\<close>. Every other pattern is left to the
  runtime.
\<close>

datatype atom = Lit nat | AnyChar

definition re_ordinary :: "nat \<Rightarrow> bool" where
  "re_ordinary c \<longleftrightarrow> c \<notin> set (str ''.^$*+?{}[]|()'') \<and> c \<noteq> 92"

fun balanced :: "nat \<Rightarrow> unicode \<Rightarrow> bool" where
  "balanced n [] = (n = 0)"
| "balanced n (c # cs) =
     (if c = 40 then balanced (Suc n) cs
      else if c = 41 then (0 < n \<and> balanced (n - 1) cs)
      else balanced n cs)"

definition atom_of :: "nat \<Rightarrow> atom" where
  "atom_of c = (if c = 46 then AnyChar else Lit c)"

text \<open>The dot matches any character but a newline; a letter matches in either case.\<close>

fun atom_ok :: "runtime \<Rightarrow> atom \<Rightarrow> nat \<Rightarrow> bool" where
  "atom_ok R (Lit x) c = (fold_char R x = fold_char R c)"
| "atom_ok R AnyChar c = (c \<noteq> 10)"

fun match_here :: "runtime \<Rightarrow> atom list \<Rightarrow> unicode \<Rightarrow> bool" where
  "match_here R [] s = True"
| "match_here R (a # as) [] = False"
| "match_here R (a # as) (c # cs) = (atom_ok R a c \<and> match_here R as cs)"

text \<open>\<^verbatim>\<open>pattern.search(s) is not None\<close>: a match starting at some position.\<close>

fun re_search :: "runtime \<Rightarrow> atom list \<Rightarrow> unicode \<Rightarrow> bool" where
  "re_search R as [] = match_here R as []"
| "re_search R as (c # cs) = (match_here R as (c # cs) \<or> re_search R as cs)"

text \<open>
  \<^verbatim>\<open>re.compile(pat, re.IGNORECASE)\<close>, as the test that \<^verbatim>\<open>str.contains\<close> applies
  to a value.
\<close>

definition re_compile :: "runtime \<Rightarrow> unicode \<Rightarrow> error + (unicode \<Rightarrow> bool)" where
  "re_compile R pat =
     (if list_all (\<lambda>c. re_ordinary c \<or> c = 46 \<or> c = 40 \<or> c = 41) pat
      then (if balanced 0 pat
            then Inr (re_search R (map atom_of (filter (\<lambda>c. c \<noteq> 40 \<and> c \<noteq> 41) pat)))
            else Inl ReError)
      else re_other R pat)"

subsection \<open>Raw items and book rows\<close>

text \<open>
  The \<^verbatim>\<open>volumeInfo\<close> object of one item of the response; every key is optional.
  An item without \<^verbatim>\<open>volumeInfo\<close> is the record with every field absent.
\<close>

record raw_item =
  title :: "unicode option"
  authors :: "unicode list option"
  publishedDate :: "unicode option"
  categories :: "unicode list option"
  ratingsCount :: "int option"

record book =
  Title :: unicode
  Authors :: unicode
  Genre :: unicode
  Publication_Year :: int
  Ratings :: int

datatype response = RequestException | Json "raw_item list"

text \<open>
  Lines 57 to 63: the year of a \<^verbatim>\<open>publishedDate\<close>, \<open>None\<close> when there is none.
  The conversion on line 61 raises \<^verbatim>\<open>ValueError\<close> where \<^verbatim>\<open>int\<close> refuses a
  string that \<^verbatim>\<open>isdigit\<close> accepts.
\<close>

definition extract_year :: "runtime \<Rightarrow> unicode \<Rightarrow> error + int option" where
  "extract_year R published =
     (if published \<noteq> [] then
        (let year = hd (split published 45 [])
         in if isdigit R year
            then (case py_int R year of None \<Rightarrow> Inl ValueError | Some n \<Rightarrow> Inr (Some n))
            else Inr None)
      else Inr None)"

text \<open>Line 70: \<^verbatim>\<open>year if year else 0\<close>; the year \<open>0\<close> is falsy as \<open>None\<close> is.\<close>

definition year_or_zero :: "int option \<Rightarrow> int" where
  "year_or_zero year = (case year of None \<Rightarrow> 0 | Some y \<Rightarrow> (if y \<noteq> 0 then y else 0))"

text \<open>Lines 51 to 72: the row appended for one item.\<close>

definition book_of_item :: "runtime \<Rightarrow> raw_item \<Rightarrow> error + book" where
  "book_of_item R info =
     (case extract_year R (case publishedDate info of None \<Rightarrow> [] | Some p \<Rightarrow> p) of
        Inl e \<Rightarrow> Inl e
      | Inr year \<Rightarrow>
          Inr \<lparr> Title = (case title info of None \<Rightarrow> str ''Unknown Title'' | Some t \<Rightarrow> t),
                Authors = join (str '', '')
                  (case authors info of None \<Rightarrow> [str ''Unknown Author''] | Some a \<Rightarrow> a),
                Genre = join (str '', '')
                  (case categories info of None \<Rightarrow> [str ''Uncategorized''] | Some c \<Rightarrow> c),
                Publication_Year = year_or_zero year,
                Ratings = (case ratingsCount info of None \<Rightarrow> 0 | Some r \<Rightarrow> r) \<rparr>)"

text \<open>Lines 49 to 72: the loop over the items, which the first exception ends.\<close>

fun books_of_items :: "runtime \<Rightarrow> raw_item list \<Rightarrow> error + book list" where
  "books_of_items R [] = Inr []"
| "books_of_items R (item # items) =
     (case book_of_item R item of
        Inl e \<Rightarrow> Inl e
      | Inr b \<Rightarrow>
          (case books_of_items R items of
             Inl e \<Rightarrow> Inl e
           | Inr bs \<Rightarrow> Inr (b # bs)))"

subsection \<open>Data frame operations\<close>

definition key :: "book \<Rightarrow> unicode \<times> unicode" where
  "key b = (Title b, Authors b)"

text \<open>
  \<^verbatim>\<open>drop_duplicates(subset=['Title','Authors'])\<close>, which keeps the first row of each
  key: \<open>seen\<close> holds the keys of the rows already passed.
\<close>

fun drop_dup :: "(unicode \<times> unicode) list \<Rightarrow> book list \<Rightarrow> book list" where
  "drop_dup seen [] = []"
| "drop_dup seen (b # bs) =
     (if key b \<in> set seen then drop_dup seen bs else b # drop_dup (key b # seen) bs)"

definition drop_duplicates :: "book list \<Rightarrow> book list" where
  "drop_duplicates bs = drop_dup [] bs"

text \<open>
  Lines 82 and 83 on a column of integers: \<^verbatim>\<open>to_numeric\<close> finds every value numeric,
  \<^verbatim>\<open>fillna(0)\<close> puts \<open>0\<close> for a missing value, and \<^verbatim>\<open>astype(int)\<close> makes the
  column one of signed 64-bit integers. The cast is followed where every value of the
  column fits; where one does not, the model ends with \<open>Int64Overflow\<close> and gives
  no frame.
\<close>

definition to_numeric :: "int list \<Rightarrow> int option list" where
  "to_numeric col = map Some col"

definition fillna :: "int \<Rightarrow> int option list \<Rightarrow> int list" where
  "fillna v col = map (\<lambda>x. case x of None \<Rightarrow> v | Some n \<Rightarrow> n) col"

definition int64 :: "int \<Rightarrow> bool" where
  "int64 v \<longleftrightarrow> - (2 ^ 63) \<le> v \<and> v < 2 ^ 63"

definition astype_int :: "int list \<Rightarrow> error + int list" where
  "astype_int col = (if list_all int64 col then Inr col else Inl Int64Overflow)"

text \<open>The assignments of lines 82 and 83: the two columns put back into the rows.\<close>

definition set_columns :: "book list \<Rightarrow> int list \<Rightarrow> int list \<Rightarrow> book list" where
  "set_columns rows years ratings =
     map (\<lambda>(b, y, r). b\<lparr>Publication_Year := y, Ratings := r\<rparr>) (zip rows (zip years ratings))"

subsection \<open>fetch_books and start-up\<close>

text \<open>
  Lines 32 to 84. A failed request raises \<^verbatim>\<open>RuntimeError\<close>. With no items the
  frame of line 77 has no columns, and reading the column \<^verbatim>\<open>Title\<close> on line 80
  raises \<^verbatim>\<open>KeyError\<close>.
\<close>

definition fetch_books :: "runtime \<Rightarrow> response \<Rightarrow> error + book list" where
  "fetch_books R r =
     (case r of
        RequestException \<Rightarrow> Inl RuntimeError
      | Json items \<Rightarrow>
          (case books_of_items R items of
             Inl e \<Rightarrow> Inl e
           | Inr books \<Rightarrow>
               if books = [] then Inl KeyError
               else
                 (let df = filter (\<lambda>b. Title b \<noteq> str ''Unknown Title'') (drop_duplicates books)
                  in case astype_int (fillna 0 (to_numeric (map Publication_Year df))) of
                       Inl e \<Rightarrow> Inl e
                     | Inr years \<Rightarrow>
                         (case astype_int (fillna 0 (to_numeric (map Ratings df))) of
                            Inl e \<Rightarrow> Inl e
                          | Inr ratings \<Rightarrow> Inr (set_columns df years ratings)))))"

text \<open>
  Lines 238 to 253: the two fetches, the concatenation and the removal of duplicates.
  \<^verbatim>\<open>RuntimeError\<close> is reported and the process exits; any other exception is not
  caught and ends the process as well.
\<close>

definition main :: "runtime \<Rightarrow> response \<Rightarrow> response \<Rightarrow> error + book list" where
  "main R fiction history =
     (case fetch_books R fiction of
        Inl e \<Rightarrow> Inl e
      | Inr df_fiction \<Rightarrow>
          (case fetch_books R history of
             Inl e \<Rightarrow> Inl e
           | Inr df_history \<Rightarrow> Inr (drop_duplicates (df_fiction @ df_history))))"

subsection \<open>The main window\<close>

text \<open>
  The window holds the frame \<^verbatim>\<open>self.df\<close>, the current text of the genre box and
  of the two line edits, and the text area. A slot gives the exception it raised, or
  else the message box it showed, if any; and the window afterwards.
\<close>

record main_window =
  df :: "book list"
  combo_genre :: unicode
  input_year :: unicode
  input_ratings :: unicode
  text_area :: unicode

datatype dialog = Warning unicode unicode | Information unicode unicode

text \<open>\<^verbatim>\<open>int(text) if text else 0\<close>; \<open>None\<close> is \<^verbatim>\<open>ValueError\<close>.\<close>

definition int_or_zero :: "runtime \<Rightarrow> unicode \<Rightarrow> int option" where
  "int_or_zero R text = (if text \<noteq> [] then py_int R text else Some 0)"

text \<open>Lines 175 to 180: the rows that \<^verbatim>\<open>apply_filter\<close> keeps.\<close>

definition apply_filter_rows ::
  "runtime \<Rightarrow> unicode \<Rightarrow> int \<Rightarrow> int \<Rightarrow> book list \<Rightarrow> error + book list" where
  "apply_filter_rows R genre min_year min_ratings d =
     (case (if genre \<noteq> []
            then (case re_compile R genre of
                    Inl e \<Rightarrow> Inl e
                  | Inr contains \<Rightarrow> Inr (filter (\<lambda>b. contains (Genre b)) d))
            else Inr d) of
        Inl e \<Rightarrow> Inl e
      | Inr df_filtered \<Rightarrow>
          Inr (filter (\<lambda>b. Publication_Year b \<ge> min_year \<and> Ratings b \<ge> min_ratings)
                 df_filtered))"

text \<open>Lines 175 to 186: the filter and the display of its rows.\<close>

definition show_filtered ::
  "runtime \<Rightarrow> unicode \<Rightarrow> int \<Rightarrow> int \<Rightarrow> main_window \<Rightarrow> (error + dialog option) \<times> main_window" where
  "show_filtered R genre min_year min_ratings w =
     (case apply_filter_rows R genre min_year min_ratings (df w) of
        Inl e \<Rightarrow> (Inl e, w)
      | Inr df_filtered \<Rightarrow>
          (if df_filtered = []
           then (Inr None, w\<lparr>text_area := str ''No books found with these filters.''\<rparr>)
           else (Inr None, w\<lparr>text_area :=
                   join [10] (map (\<lambda>b. Title b @ str '' by '' @ Authors b) df_filtered)\<rparr>)))"

text \<open>Lines 158 to 186.\<close>

definition apply_filter :: "runtime \<Rightarrow> main_window \<Rightarrow> (error + dialog option) \<times> main_window" where
  "apply_filter R w =
     (let genre = combo_genre w;
          year_text = strip R (input_year w);
          ratings_text = strip R (input_ratings w)
      in case int_or_zero R year_text of
           None \<Rightarrow>
             (Inr (Some (Warning (str ''Input Error'') (str ''Year must be an integer.''))), w)
         | Some min_year \<Rightarrow>
             (case int_or_zero R ratings_text of
                None \<Rightarrow>
                  (Inr (Some (Warning (str ''Input Error'') (str ''Ratings must be an integer.''))),
                   w)
              | Some min_ratings \<Rightarrow> show_filtered R genre min_year min_ratings w))"

text \<open>Lines 209 to 213: the rows that \<^verbatim>\<open>suggest_random\<close> draws from.\<close>

definition suggest_random_rows ::
  "runtime \<Rightarrow> unicode \<Rightarrow> int \<Rightarrow> int \<Rightarrow> book list \<Rightarrow> error + book list" where
  "suggest_random_rows R genre min_year min_ratings d =
     (case (if genre \<noteq> []
            then (case re_compile R genre of
                    Inl e \<Rightarrow> Inl e
                  | Inr contains \<Rightarrow> Inr (filter (\<lambda>b. contains (Genre b)) d))
            else Inr d) of
        Inl e \<Rightarrow> Inl e
      | Inr df_filtered \<Rightarrow>
          Inr (filter (\<lambda>b. Publication_Year b \<ge> min_year \<and> Ratings b \<ge> min_ratings)
                 df_filtered))"

text \<open>
  \<^verbatim>\<open>sample(1).iloc[0]\<close> on a frame with at least one row: the row at a random
  position. The random draw is the argument \<open>k\<close>, reduced to a position of the frame.
\<close>

definition sample1 :: "nat \<Rightarrow> book list \<Rightarrow> book" where
  "sample1 k rows = rows ! (k mod length rows)"

definition details :: "book \<Rightarrow> unicode" where
  "details b =
     str ''Title: '' @ Title b @ [10] @
     str ''Authors: '' @ Authors b @ [10] @
     str ''Genre: '' @ Genre b @ [10] @
     str ''Published Year: '' @ str_of_int (Publication_Year b) @ [10] @
     str ''Ratings Count: '' @ str_of_int (Ratings b)"

text \<open>Lines 209 to 224: the filter, the draw and the display of the row drawn.\<close>

definition pick_and_show ::
  "runtime \<Rightarrow> nat \<Rightarrow> unicode \<Rightarrow> int \<Rightarrow> int \<Rightarrow> main_window
     \<Rightarrow> (error + dialog option) \<times> main_window" where
  "pick_and_show R k genre min_year min_ratings w =
     (case suggest_random_rows R genre min_year min_ratings (df w) of
        Inl e \<Rightarrow> (Inl e, w)
      | Inr df_filtered \<Rightarrow>
          (if df_filtered = []
           then (Inr (Some (Information (str ''No Books'') (str ''No books match the criteria.''))),
                 w)
           else (Inr None, w\<lparr>text_area := details (sample1 k df_filtered)\<rparr>)))"

text \<open>Lines 196 to 224; one \<^verbatim>\<open>try\<close> covers both conversions.\<close>

definition suggest_random ::
  "runtime \<Rightarrow> nat \<Rightarrow> main_window \<Rightarrow> (error + dialog option) \<times> main_window" where
  "suggest_random R k w =
     (let genre = combo_genre w;
          year_text = strip R (input_year w);
          ratings_text = strip R (input_ratings w)
      in case int_or_zero R year_text of
           None \<Rightarrow>
             (Inr (Some (Warning (str ''Input Error'')
                (str ''Year and Ratings must be integers.''))), w)
         | Some min_year \<Rightarrow>
             (case int_or_zero R ratings_text of
                None \<Rightarrow>
                  (Inr (Some (Warning (str ''Input Error'')
                     (str ''Year and Ratings must be integers.''))), w)
              | Some min_ratings \<Rightarrow> pick_and_show R k genre min_year min_ratings w))"

text \<open>
  Line 123: the entries of the genre box,
  \<^verbatim>\<open>sorted(set(df['Genre'].str.split(', ').str[0].tolist()))\<close>.
\<close>

definition available_genres :: "book list \<Rightarrow> unicode list" where
  "available_genres d = sort (remdups (map (\<lambda>b. hd (split (Genre b) 44 [32])) d))"

subsection \<open>Notions of the specification\<close>

text \<open>Containment of \<open>g\<close> in \<open>s\<close> as a substring, letters compared without case.\<close>

definition contains_ci :: "runtime \<Rightarrow> unicode \<Rightarrow> unicode \<Rightarrow> bool" where
  "contains_ci R g s \<longleftrightarrow> sublist (map (fold_char R) g) (map (fold_char R) s)"

text \<open>The invariant of a dataset on its two numeric fields.\<close>

definition nonneg_fields :: "book \<Rightarrow> bool" where
  "nonneg_fields b \<longleftrightarrow> 0 \<le> Publication_Year b \<and> 0 \<le> Ratings b"

text \<open>
  The first comma-segment of a genre: \<open>p\<close> is the whole of \<open>g\<close> when \<open>g\<close> has no
  separator \<^verbatim>\<open>", "\<close>, and otherwise the part of \<open>g\<close> before its first separator.
\<close>

definition is_first_segment :: "unicode \<Rightarrow> unicode \<Rightarrow> bool" where
  "is_first_segment p g \<longleftrightarrow>
     (p = g \<and> \<not> sublist (str '', '') g)
     \<or> (prefix (p @ str '', '') g \<and> \<not> sublist (str '', '') (p @ str '',''))"

text \<open>What the user sees of a slot: its exception or message box, and the text area.\<close>

definition outcome ::
  "(error + dialog option) \<times> main_window \<Rightarrow> (error + dialog option) \<times> unicode" where
  "outcome r = (fst r, text_area (snd r))"

subsection \<open>Example data\<close>

text \<open>
  A runtime for the examples: no white space, digit or case pair above 255, the usual
  limit of 4300 digits, and every pattern outside the fragment refused.
\<close>

definition runtime_example :: runtime where
  "runtime_example = \<lparr>uni_isspace = (\<lambda>c. False), uni_isdigit = (\<lambda>c. False),
     uni_decimal = (\<lambda>c. None), uni_fold = (\<lambda>c. c), max_str_digits = 4300,
     re_other = (\<lambda>pat. Inl ReError)\<rparr>"

definition raw_T1 :: raw_item where
  "raw_T1 = \<lparr>title = Some (str ''T1''), authors = Some [str ''A1''],
     publishedDate = Some (str ''2010-05-01''), categories = Some [str ''Fiction''],
     ratingsCount = Some 5\<rparr>"



definition book_T1 :: book where
  "book_T1 = \<lparr>Title = str ''T1'', Authors = str ''A1'', Genre = str ''Fiction'',
     Publication_Year = 2010, Ratings = 5\<rparr>"

definition book_T2 :: book where
  "book_T2 = \<lparr>Title = str ''T2'', Authors = str ''A2'', Genre = str ''History'',
     Publication_Year = 1990, Ratings = 0\<rparr>"

definition book_T3 :: book where
  "book_T3 = \<lparr>Title = str ''T3'', Authors = str ''A3'', Genre = str ''History, Europe'',
     Publication_Year = 2001, Ratings = 3\<rparr>"

text \<open>The text of the year is a space and a no-break space.\<close>

definition window_blank :: main_window where
  "window_blank = \<lparr>df = [book_T1, book_T2], combo_genre = [], input_year = [32, 160],
     input_ratings = [], text_area = []\<rparr>"

definition window_fiction :: main_window where
  "window_fiction = \<lparr>df = [book_T1, book_T2], combo_genre = str ''fiction'',
     input_year = str ''2000'', input_ratings = str ''1'', text_area = []\<rparr>"

definition window_bad_year :: main_window where
  "window_bad_year = \<lparr>df = [book_T1, book_T2], combo_genre = str ''Fiction'',
     input_year = str ''20x0'', input_ratings = [], text_area = []\<rparr>"

definition window_none :: main_window where
  "window_none = \<lparr>df = [book_T1, book_T2], combo_genre = [], input_year = str ''2020'',
     input_ratings = [], text_area = []\<rparr>"

definition window_bad_genre :: main_window where
  "window_bad_genre = \<lparr>df = [book_T1, book_T2], combo_genre = str ''History (Wars'',
     input_year = [], input_ratings = [], text_area = []\<rparr>"

section \<open>Properties\<close>

subsection \<open>Strings and years\<close>

text \<open>A split has at least one segment, so that its first segment exists.\<close>

lemma split_acc_nonempty: "split_acc c cs acc s \<noteq> []"
  by (induction c cs acc s rule: split_acc.induct) auto

lemma split_nonempty: "split s c cs \<noteq> []"
  by (simp add: split_def split_acc_nonempty)

lemma hd_split_acc: "hd (split_acc c [] acc s) = rev acc @ takeWhile (\<lambda>x. x \<noteq> c) s"
  by (induction c "[]::unicode" acc s rule: split_acc.induct) auto

lemma hd_split: "hd (split s c []) = takeWhile (\<lambda>x. x \<noteq> c) s"
  by (simp add: split_def hd_split_acc)









text \<open>
  Where the year of a date is what the specification says: the part before the first
  \<^verbatim>\<open>-\<close> is made of at most 640 of the digits \<^verbatim>\<open>0\<close> to \<^verbatim>\<open>9\<close>, and the
  year is its decimal value; or that part does not pass \<^verbatim>\<open>isdigit\<close>, and there is
  no year.
\<close>

lemma int_body_ok_decimal:
  "s \<noteq> [] \<Longrightarrow> \<forall>c\<in>set s. decimal_char R c \<noteq> None \<and> c \<noteq> 95 \<Longrightarrow> int_body_ok R s"
  by (induction R s rule: int_body_ok.induct) auto

lemma strip_with_ends:
  assumes "s \<noteq> []" and "\<not> space (hd s)" and "\<not> space (last s)"
  shows "strip_with space s = s"
proof -
  from assms(1,2) have a: "dropWhile space s = s"
    by (cases s) auto
  from assms(1,3) have "dropWhile space (rev s) = rev s"
    by (cases "rev s") (auto simp: hd_rev)
  with a show ?thesis by (simp add: strip_with_def)
qed

lemma year_of_decimal_date:
  assumes "y = takeWhile (\<lambda>c. c \<noteq> 45) p" and "y \<noteq> []"
    and "\<forall>c\<in>set y. 48 \<le> c \<and> c \<le> 57" and "length y \<le> 640"
  shows "extract_year R p = Inr (Some (int (digits_value R y)))"
proof -
  from assms(1,2) have p: "p \<noteq> []" by auto
  from assms(3) have dig: "\<forall>c\<in>set y. decimal_char R c \<noteq> None \<and> c \<noteq> 95"
    by (auto simp: decimal_char_def)
  from assms(2,3) have isd: "isdigit R y"
    by (auto simp: isdigit_def isdigit_char_def list_all_iff)
  from assms(3) have nosp: "\<forall>c\<in>set y. \<not> int_space R c"
    by (auto simp: int_space_def isspace_char_def)
  with assms(2) have st: "strip_with (int_space R) y = y"
    by (intro strip_with_ends) auto
  from assms(2) obtain c cs where y: "y = c # cs" by (cases y) auto
  with assms(3) have c: "c \<noteq> 45 \<and> c \<noteq> 43" by auto
  from dig have flt: "filter (\<lambda>c. c \<noteq> 95) y = y"
    by (simp add: filter_id_conv)
  from assms(4) have short: "\<not> too_long R (length y)"
    by (simp add: too_long_def)
  from int_body_ok_decimal [OF assms(2) dig] flt short
  have "int_body R y = Some (int (digits_value R y))"
    by (simp add: int_body_def)
  with st y c have "py_int R y = Some (int (digits_value R y))"
    by (simp add: py_int_def)
  with p isd assms(1) show ?thesis
    by (simp add: extract_year_def hd_split)
qed

lemma year_of_other_date:
  "\<not> isdigit R (takeWhile (\<lambda>c. c \<noteq> 45) p) \<Longrightarrow> extract_year R p = Inr None"
  by (simp add: extract_year_def hd_split)

text \<open>
  C5. The year is not, for every date, the number before the first \<^verbatim>\<open>-\<close> or else
  \<open>0\<close>. The dates \<^verbatim>\<open>2015-03-04\<close> and \<^verbatim>\<open>circa 1990\<close> give 2015 and 0. In the
  date \<^verbatim>\<open>2015\<close>, superscript two, \<^verbatim>\<open>-03-04\<close> the part before the first
  \<^verbatim>\<open>-\<close> passes \<^verbatim>\<open>isdigit\<close> on line 60, and \<^verbatim>\<open>int\<close> on line 61 refuses it:
  no row is built, \<open>fetch_books\<close> raises \<^verbatim>\<open>ValueError\<close>, and start-up ends with
  it.
\<close>

theorem year_guard_lets_int_fail:
  "book_of_item R \<lparr>title = Some (str ''T''), authors = None,
       publishedDate = Some (str ''2015-03-04''), categories = None, ratingsCount = None\<rparr>
     = Inr \<lparr>Title = str ''T'', Authors = str ''Unknown Author'', Genre = str ''Uncategorized'',
         Publication_Year = 2015, Ratings = 0\<rparr>
   \<and> book_of_item R \<lparr>title = Some (str ''T''), authors = None,
       publishedDate = Some (str ''circa 1990''), categories = None, ratingsCount = None\<rparr>
     = Inr \<lparr>Title = str ''T'', Authors = str ''Unknown Author'', Genre = str ''Uncategorized'',
         Publication_Year = 0, Ratings = 0\<rparr>
   \<and> isdigit R (str ''2015'' @ [178])
   \<and> py_int R (str ''2015'' @ [178]) = None
   \<and> book_of_item R \<lparr>title = Some (str ''T''), authors = None,
       publishedDate = Some (str ''2015'' @ [178] @ str ''-03-04''), categories = None,
       ratingsCount = None\<rparr> = Inl ValueError
   \<and> fetch_books R (Json [\<lparr>title = Some (str ''T''), authors = None,
       publishedDate = Some (str ''2015'' @ [178] @ str ''-03-04''), categories = None,
       ratingsCount = None\<rparr>]) = Inl ValueError
   \<and> main R (Json [\<lparr>title = Some (str ''T''), authors = None,
       publishedDate = Some (str ''2015'' @ [178] @ str ''-03-04''), categories = None,
       ratingsCount = None\<rparr>]) history = Inl ValueError"
  by code_simp

subsection \<open>Fetching and merging\<close>

























text \<open>The same holds with every runtime.\<close>

lemma negative_ratings_kept_any:
  "fetch_books R (Json [\<lparr>title = Some (str ''T3''), authors = Some [str ''A3''],
      publishedDate = Some (str ''2001-01-01''), categories = Some [str ''History''],
      ratingsCount = Some (- 1)\<rparr>])
   = Inr [\<lparr>Title = str ''T3'', Authors = str ''A3'', Genre = str ''History'',
      Publication_Year = 2001, Ratings = - 1\<rparr>]"
  by code_simp

subsection \<open>Start-up\<close>

text \<open>
  C9. A response with an empty list of items makes \<open>fetch_books\<close> raise
  \<^verbatim>\<open>KeyError\<close> instead of returning an empty frame, and start-up then ends with an
  exception whichever of the two fetches met the empty list: no dataset is built. When
  the first fetch returned a frame, the exception is the \<^verbatim>\<open>KeyError\<close> of the second.
\<close>

theorem empty_items_fatal:
  "fetch_books R (Json []) = Inl KeyError
   \<and> main R (Json []) history = Inl KeyError
   \<and> (\<exists>e. main R fiction (Json []) = Inl e)
   \<and> (fetch_books R fiction = Inr d \<longrightarrow> main R fiction (Json []) = Inl KeyError)"
proof -
  have f: "fetch_books R (Json []) = Inl KeyError"
    by (simp add: fetch_books_def)
  have m1: "main R (Json []) history = Inl KeyError"
    by (simp add: main_def f)
  have m2: "\<exists>e. main R fiction (Json []) = Inl e"
    by (cases "fetch_books R fiction") (simp_all add: main_def f)
  have m3: "fetch_books R fiction = Inr d \<longrightarrow> main R fiction (Json []) = Inl KeyError"
    by (simp add: main_def f)
  from f m1 m2 m3 show ?thesis by simp
qed

theorem empty_items_fatal_witness:
  "fetch_books runtime_example (Json [raw_T1]) = Inr [book_T1]
   \<and> main runtime_example (Json [raw_T1]) (Json []) = Inl KeyError
   \<and> fetch_books runtime_example (Json []) = Inl KeyError"
proof -
  have f: "fetch_books runtime_example (Json [raw_T1]) = Inr [book_T1]"
    by code_simp
  from empty_items_fatal [of runtime_example _ "Json [raw_T1]" "[book_T1]"] f
  show ?thesis by simp
qed

subsection \<open>Filtering\<close>

lemma balanced_no_paren: "40 \<notin> set s \<Longrightarrow> 41 \<notin> set s \<Longrightarrow> balanced n s = (n = 0)"
  by (induction s arbitrary: n) auto

lemma re_ordinary_no_special: "re_ordinary c \<Longrightarrow> c \<noteq> 46 \<and> c \<noteq> 40 \<and> c \<noteq> 41"
  by (auto simp: re_ordinary_def str_def)

lemma re_compile_ordinary:
  assumes "list_all re_ordinary g"
  shows "re_compile R g = Inr (re_search R (map Lit g))"
proof -
  from assms have no: "\<forall>c\<in>set g. c \<noteq> 46 \<and> c \<noteq> 40 \<and> c \<noteq> 41"
    using re_ordinary_no_special by (auto simp: list_all_iff)
  then have bal: "balanced 0 g"
    by (subst balanced_no_paren) auto
  from no have flt: "filter (\<lambda>c. c \<noteq> 40 \<and> c \<noteq> 41) g = g"
    by (simp add: filter_id_conv)
  from no have at: "map atom_of g = map Lit g"
    by (simp add: atom_of_def)
  from assms have all: "list_all (\<lambda>c. re_ordinary c \<or> c = 46 \<or> c = 40 \<or> c = 41) g"
    by (simp add: list_all_iff)
  show ?thesis
    unfolding re_compile_def using all bal by (simp add: flt at)
qed

lemma match_here_lit:
  "match_here R (map Lit g) s \<longleftrightarrow> prefix (map (fold_char R) g) (map (fold_char R) s)"
proof (induction g arbitrary: s)
  case Nil
  then show ?case by simp
next
  case (Cons a g)
  then show ?case by (cases s) auto
qed

lemma re_search_lit: "re_search R (map Lit g) s \<longleftrightarrow> contains_ci R g s"
proof (induction s)
  case Nil
  then show ?case by (cases g) (simp_all add: contains_ci_def)
next
  case (Cons c s)
  then show ?case
    by (simp add: contains_ci_def match_here_lit sublist_Cons_right del: match_here.simps)
qed

text \<open>
  Where the genre has no character that is special in a regular expression, the rows
  kept are those whose genre contains it without regard to case and whose year and
  ratings count reach the two minima; with the empty genre only the minima decide.
\<close>

lemma ordinary_genre_rows:
  assumes "list_all re_ordinary g" and "g \<noteq> []"
  shows "apply_filter_rows R g y r d =
    Inr (filter (\<lambda>b. contains_ci R g (Genre b) \<and> y \<le> Publication_Year b \<and> r \<le> Ratings b) d)"
  using assms by (simp add: apply_filter_rows_def re_compile_ordinary re_search_lit)

lemma empty_genre_rows:
  "apply_filter_rows R [] y r d =
     Inr (filter (\<lambda>b. y \<le> Publication_Year b \<and> r \<le> Ratings b) d)"
  by (simp add: apply_filter_rows_def)

lemma rows_same: "suggest_random_rows R g y r d = apply_filter_rows R g y r d"
  by (simp add: suggest_random_rows_def apply_filter_rows_def)

lemma sample1_member: "rows \<noteq> [] \<Longrightarrow> sample1 k rows \<in> set rows"
  by (simp add: sample1_def)

text \<open>
  C1. The genre is searched for as a regular expression, not as a substring. The genre
  box offers \<^verbatim>\<open>New York (N.Y.)\<close> for a dataset whose one row has that genre; with
  it selected and both minima left empty, \<open>apply_filter\<close> finds no books, although
  the genre of the row contains the selected text and its year and ratings count are
  not negative. With \<^verbatim>\<open>Sci.Fi\<close> selected, a row of genre \<^verbatim>\<open>Sci-Fi\<close> is kept,
  although its genre does not contain the selected text.
\<close>

theorem genre_searched_as_pattern:
  "available_genres [\<lparr>Title = str ''T'', Authors = str ''A'', Genre = str ''New York (N.Y.)'',
       Publication_Year = 1900, Ratings = 2\<rparr>] = [str ''New York (N.Y.)'']
   \<and> apply_filter R \<lparr>df = [\<lparr>Title = str ''T'', Authors = str ''A'',
         Genre = str ''New York (N.Y.)'', Publication_Year = 1900, Ratings = 2\<rparr>],
       combo_genre = str ''New York (N.Y.)'', input_year = [], input_ratings = [],
       text_area = []\<rparr>
     = (Inr None, \<lparr>df = [\<lparr>Title = str ''T'', Authors = str ''A'',
         Genre = str ''New York (N.Y.)'', Publication_Year = 1900, Ratings = 2\<rparr>],
       combo_genre = str ''New York (N.Y.)'', input_year = [], input_ratings = [],
       text_area = str ''No books found with these filters.''\<rparr>)
   \<and> apply_filter_rows R (str ''New York (N.Y.)'') 0 0
       [\<lparr>Title = str ''T'', Authors = str ''A'', Genre = str ''New York (N.Y.)'',
         Publication_Year = 1900, Ratings = 2\<rparr>] = Inr []
   \<and> contains_ci R (str ''New York (N.Y.)'') (str ''New York (N.Y.)'')
   \<and> apply_filter_rows R (str ''Sci.Fi'') 0 0
       [\<lparr>Title = str ''T'', Authors = str ''A'', Genre = str ''Sci.Fi'',
          Publication_Year = 1900, Ratings = 2\<rparr>,
        \<lparr>Title = str ''U'', Authors = str ''B'', Genre = str ''Sci-Fi'',
          Publication_Year = 1900, Ratings = 2\<rparr>]
     = Inr
       [\<lparr>Title = str ''T'', Authors = str ''A'', Genre = str ''Sci.Fi'',
          Publication_Year = 1900, Ratings = 2\<rparr>,
        \<lparr>Title = str ''U'', Authors = str ''B'', Genre = str ''Sci-Fi'',
          Publication_Year = 1900, Ratings = 2\<rparr>]
   \<and> \<not> contains_ci R (str ''Sci.Fi'') (str ''Sci-Fi'')"
  by code_simp

text \<open>
  C3, as amended. On a dataset whose rows all have a year and a ratings count that are
  not negative, the filter with the empty genre and both minima \<open>0\<close> returns every
  row, in the order of the dataset.
\<close>

theorem identity_filter:
  "(\<forall>b\<in>set d. nonneg_fields b) \<Longrightarrow> apply_filter_rows R [] 0 0 d = Inr d"
  by (simp add: empty_genre_rows nonneg_fields_def filter_id_conv)

theorem identity_filter_witness:
  "nonneg_fields book_T1 \<and> nonneg_fields book_T2
   \<and> apply_filter_rows runtime_example [] 0 0 [book_T1, book_T2] = Inr [book_T1, book_T2]"
proof -
  have h: "\<forall>b\<in>set [book_T1, book_T2]. nonneg_fields b"
    by (simp add: nonneg_fields_def book_T1_def book_T2_def)
  from h identity_filter [OF h, of runtime_example] show ?thesis by simp
qed

text \<open>
  The claim as stated fails on a dataset that start-up builds: from an item whose
  ratings count is \<open>-1\<close> it builds a dataset of one row, and the filter with the
  empty genre and both minima \<open>0\<close> returns no row of it.
\<close>

theorem identity_filter_drops_negative:
  "main runtime_example
     (Json [\<lparr>title = Some (str ''T3''), authors = Some [str ''A3''],
        publishedDate = Some (str ''2001-01-01''), categories = Some [str ''History''],
        ratingsCount = Some (- 1)\<rparr>])
     (Json [\<lparr>title = Some (str ''T3''), authors = Some [str ''A3''],
        publishedDate = Some (str ''2001-01-01''), categories = Some [str ''History''],
        ratingsCount = Some (- 1)\<rparr>])
   = Inr [\<lparr>Title = str ''T3'', Authors = str ''A3'', Genre = str ''History'',
        Publication_Year = 2001, Ratings = - 1\<rparr>]
   \<and> apply_filter_rows runtime_example [] 0 0
       [\<lparr>Title = str ''T3'', Authors = str ''A3'', Genre = str ''History'',
          Publication_Year = 2001, Ratings = - 1\<rparr>] = Inr []"
  by code_simp

text \<open>The same holds with every runtime.\<close>

lemma identity_filter_drops_negative_any:
  "main R
     (Json [\<lparr>title = Some (str ''T3''), authors = Some [str ''A3''],
        publishedDate = Some (str ''2001-01-01''), categories = Some [str ''History''],
        ratingsCount = Some (- 1)\<rparr>])
     (Json [\<lparr>title = Some (str ''T3''), authors = Some [str ''A3''],
        publishedDate = Some (str ''2001-01-01''), categories = Some [str ''History''],
        ratingsCount = Some (- 1)\<rparr>])
   = Inr [\<lparr>Title = str ''T3'', Authors = str ''A3'', Genre = str ''History'',
        Publication_Year = 2001, Ratings = - 1\<rparr>]
   \<and> apply_filter_rows R [] 0 0
       [\<lparr>Title = str ''T3'', Authors = str ''A3'', Genre = str ''History'',
          Publication_Year = 2001, Ratings = - 1\<rparr>] = Inr []"
  by code_simp

text \<open>
  C6. For every genre and pair of minima the rows that \<open>suggest_random\<close> draws from
  are the rows that \<open>apply_filter\<close> keeps, and where the pattern of the genre makes
  the one raise, the other raises the same. When the two texts convert: if there are
  rows, the row drawn is one of them and its details are shown, with no message box; if
  there are none, the information box \<^verbatim>\<open>No Books\<close> is shown, no exception is raised
  and the window is left as it was.
\<close>

theorem pick_from_filtered:
  "suggest_random_rows R g y r d = apply_filter_rows R g y r d
   \<and> (int_or_zero R (strip R (input_year w)) = Some y
        \<and> int_or_zero R (strip R (input_ratings w)) = Some r \<longrightarrow>
      (\<forall>rows. apply_filter_rows R (combo_genre w) y r (df w) = Inr rows \<and> rows \<noteq> [] \<longrightarrow>
         sample1 k rows \<in> set rows
         \<and> suggest_random R k w = (Inr None, w\<lparr>text_area := details (sample1 k rows)\<rparr>))
      \<and> (apply_filter_rows R (combo_genre w) y r (df w) = Inr [] \<longrightarrow>
         suggest_random R k w
           = (Inr (Some (Information (str ''No Books'') (str ''No books match the criteria.''))),
              w))
      \<and> (\<forall>e. apply_filter_rows R (combo_genre w) y r (df w) = Inl e \<longrightarrow>
         suggest_random R k w = (Inl e, w)))"
  by (simp add: rows_same sample1_member suggest_random_def pick_and_show_def)

theorem pick_from_filtered_witness:
  "suggest_random runtime_example 7 window_fiction
     = (Inr None, window_fiction\<lparr>text_area := details book_T1\<rparr>)
   \<and> apply_filter_rows runtime_example (str ''fiction'') 2000 1 [book_T1, book_T2]
     = Inr [book_T1]
   \<and> book_T1 \<in> set [book_T1]
   \<and> suggest_random runtime_example 7 window_none
       = (Inr (Some (Information (str ''No Books'') (str ''No books match the criteria.''))),
          window_none)
   \<and> suggest_random runtime_example 7 window_bad_genre = (Inl ReError, window_bad_genre)"
proof -
  have y1: "int_or_zero runtime_example (strip runtime_example (input_year window_fiction))
      = Some 2000"
    by code_simp
  have r1: "int_or_zero runtime_example (strip runtime_example (input_ratings window_fiction))
      = Some 1"
    by code_simp
  have f1: "apply_filter_rows runtime_example (combo_genre window_fiction) 2000 1
      (df window_fiction) = Inr [book_T1]"
    by code_simp
  have f1': "apply_filter_rows runtime_example (str ''fiction'') 2000 1 [book_T1, book_T2]
      = Inr [book_T1]"
    by code_simp
  have s1: "sample1 7 [book_T1] = book_T1"
    by (simp add: sample1_def)
  have y2: "int_or_zero runtime_example (strip runtime_example (input_year window_none))
      = Some 2020"
    by code_simp
  have r2: "int_or_zero runtime_example (strip runtime_example (input_ratings window_none))
      = Some 0"
    by code_simp
  have f2: "apply_filter_rows runtime_example (combo_genre window_none) 2020 0
      (df window_none) = Inr []"
    by code_simp
  have y3: "int_or_zero runtime_example (strip runtime_example (input_year window_bad_genre))
      = Some 0"
    by code_simp
  have r3: "int_or_zero runtime_example (strip runtime_example (input_ratings window_bad_genre))
      = Some 0"
    by code_simp
  have f3: "apply_filter_rows runtime_example (combo_genre window_bad_genre) 0 0
      (df window_bad_genre) = Inl ReError"
    by code_simp
  from pick_from_filtered [where R = runtime_example and w = window_fiction and y = 2000
      and r = 1 and k = 7] y1 r1 f1 s1
  have a: "suggest_random runtime_example 7 window_fiction
      = (Inr None, window_fiction\<lparr>text_area := details book_T1\<rparr>)"
    by simp
  from pick_from_filtered [where R = runtime_example and w = window_none and y = 2020
      and r = 0 and k = 7] y2 r2 f2
  have b: "suggest_random runtime_example 7 window_none
      = (Inr (Some (Information (str ''No Books'') (str ''No books match the criteria.''))),
         window_none)"
    by simp
  from pick_from_filtered [where R = runtime_example and w = window_bad_genre and y = 0
      and r = 0 and k = 7] y3 r3 f3
  have c: "suggest_random runtime_example 7 window_bad_genre = (Inl ReError, window_bad_genre)"
    by simp
  from a b c f1' show ?thesis by simp
qed

text \<open>
  C7. Whatever a slot does, the frame held by the window afterwards is the frame held
  before: when rows are shown, when none are found, when a text is rejected and when
  the pattern of the genre raises. A slot that raises or shows a message box leaves the
  whole window as it was.
\<close>

theorem dataset_unmodified:
  "df (snd (apply_filter R w)) = df w
   \<and> df (snd (suggest_random R k w)) = df w
   \<and> (fst (apply_filter R w) \<noteq> Inr None \<longrightarrow> snd (apply_filter R w) = w)
   \<and> (fst (suggest_random R k w) \<noteq> Inr None \<longrightarrow> snd (suggest_random R k w) = w)"
  by (auto simp: apply_filter_def suggest_random_def show_filtered_def pick_and_show_def
      Let_def split: option.splits sum.splits if_splits)

theorem dataset_unmodified_witness:
  "apply_filter runtime_example window_bad_year
     = (Inr (Some (Warning (str ''Input Error'') (str ''Year must be an integer.''))),
        window_bad_year)
   \<and> apply_filter runtime_example window_bad_genre = (Inl ReError, window_bad_genre)
   \<and> df (snd (suggest_random runtime_example 7 window_fiction)) = [book_T1, book_T2]
   \<and> snd (suggest_random runtime_example 7 window_bad_genre) = window_bad_genre"
proof -
  have a: "fst (apply_filter runtime_example window_bad_year)
      = Inr (Some (Warning (str ''Input Error'') (str ''Year must be an integer.'')))"
    by code_simp
  have b: "fst (apply_filter runtime_example window_bad_genre) = Inl ReError"
    by code_simp
  have c: "fst (suggest_random runtime_example 7 window_bad_genre) = Inl ReError"
    by code_simp
  have d: "df window_fiction = [book_T1, book_T2]"
    by (simp add: window_fiction_def)
  from dataset_unmodified [of runtime_example window_bad_year 7] a
  have a': "snd (apply_filter runtime_example window_bad_year) = window_bad_year"
    by simp
  from dataset_unmodified [of runtime_example window_bad_genre 7] b c
  have b': "snd (apply_filter runtime_example window_bad_genre) = window_bad_genre"
    and c': "snd (suggest_random runtime_example 7 window_bad_genre) = window_bad_genre"
    by simp_all
  from dataset_unmodified [of runtime_example window_fiction 7] d
  have d': "df (snd (suggest_random runtime_example 7 window_fiction)) = [book_T1, book_T2]"
    by simp
  from a a' b b' c' d' show ?thesis
    by (simp add: prod_eq_iff)
qed

subsection \<open>The genre box\<close>

lemma hd_split_acc_gen: "hd (split_acc c cs acc s) = rev acc @ hd (split_acc c cs [] s)"
proof (induction s arbitrary: acc)
  case Nil
  then show ?case by simp
next
  case (Cons x xs)
  show ?case
  proof (cases "x = c \<and> prefix cs xs")
    case True
    then show ?thesis by simp
  next
    case False
    then have "hd (split_acc c cs acc (x # xs)) = hd (split_acc c cs (x # acc) xs)" by auto
    also have "\<dots> = rev (x # acc) @ hd (split_acc c cs [] xs)" by (rule Cons.IH)
    also have "\<dots> = rev acc @ (rev [x] @ hd (split_acc c cs [] xs))" by simp
    also have "rev [x] @ hd (split_acc c cs [] xs) = hd (split_acc c cs [x] xs)"
      by (rule Cons.IH [symmetric])
    also have "hd (split_acc c cs [x] xs) = hd (split_acc c cs [] (x # xs))"
      using False by auto
    finally show ?thesis .
  qed
qed

lemma seg_Nil: "hd (split [] c cs) = []"
  by (simp add: split_def)

lemma seg_Cons:
  "hd (split (x # xs) c cs) = (if x = c \<and> prefix cs xs then [] else x # hd (split xs c cs))"
  using hd_split_acc_gen [of c cs "[x]" xs] by (auto simp: split_def)

lemma comma_space: "str '', '' = [44, 32]" and comma: "str '','' = [44]"
  by (simp_all add: str_def)

lemma first_segment: "is_first_segment (hd (split g 44 [32])) g"
proof (induction g)
  case Nil
  then show ?case by (simp add: is_first_segment_def seg_Nil comma_space)
next
  case (Cons x xs)
  let ?p = "hd (split xs 44 [32])"
  show ?case
  proof (cases "x = 44 \<and> prefix [32] xs")
    case True
    then show ?thesis
      by (simp add: is_first_segment_def seg_Cons sublist_Cons_right comma_space comma)
  next
    case False
    from Cons have "(?p = xs \<and> \<not> sublist [44, 32] xs)
        \<or> (prefix (?p @ [44, 32]) xs \<and> \<not> sublist [44, 32] (?p @ [44]))"
      by (simp add: is_first_segment_def comma_space comma)
    then show ?thesis
    proof
      assume "?p = xs \<and> \<not> sublist [44, 32] xs"
      with False show ?thesis
        by (auto simp: is_first_segment_def seg_Cons sublist_Cons_right comma_space comma)
    next
      assume b: "prefix (?p @ [44, 32]) xs \<and> \<not> sublist [44, 32] (?p @ [44])"
      have "\<not> prefix [44, 32] (x # ?p @ [44])"
      proof (cases ?p)
        case Nil
        then show ?thesis by simp
      next
        case (Cons a t)
        with b obtain rest where "xs = a # rest" by (auto simp: prefix_def)
        with False Cons show ?thesis by auto
      qed
      with b False show ?thesis
        by (auto simp: is_first_segment_def seg_Cons sublist_Cons_right comma_space comma)
    qed
  qed
qed

text \<open>
  C8. The entries of the genre box are the first comma-segments of the genres of the
  dataset, each once, in ascending order.
\<close>

theorem genre_box_entries:
  "set (available_genres d) = (\<lambda>b. hd (split (Genre b) 44 [32])) ` set d
   \<and> sorted (available_genres d) \<and> distinct (available_genres d)
   \<and> (\<forall>b\<in>set d. is_first_segment (hd (split (Genre b) 44 [32])) (Genre b))"
  by (simp add: available_genres_def first_segment)

theorem genre_box_entries_witness:
  "available_genres [book_T3, book_T1, book_T2] = [str ''Fiction'', str ''History'']
   \<and> sorted [str ''Fiction'', str ''History''] \<and> distinct [str ''Fiction'', str ''History'']
   \<and> is_first_segment (str ''History'') (str ''History, Europe'')"
proof -
  have a: "available_genres [book_T3, book_T1, book_T2] = [str ''Fiction'', str ''History'']"
    by code_simp
  have g: "Genre book_T3 = str ''History, Europe''"
    by (simp add: book_T3_def)
  have h: "hd (split (str ''History, Europe'') 44 [32]) = str ''History''"
    by code_simp
  from genre_box_entries [of "[book_T3, book_T1, book_T2]"]
  have "sorted (available_genres [book_T3, book_T1, book_T2])"
    and "distinct (available_genres [book_T3, book_T1, book_T2])"
    and "is_first_segment (hd (split (Genre book_T3) 44 [32])) (Genre book_T3)"
    by simp_all
  with a g h show ?thesis by simp
qed

subsection \<open>Empty minima\<close>

lemma int_or_zero_Nil: "int_or_zero R [] = Some 0"
  by (simp add: int_or_zero_def)

lemma int_or_zero_0: "int_or_zero R (strip R (str ''0'')) = Some 0"
  by code_simp

text \<open>
  C10, as amended. When the text of the minimum year is empty or white space only, both
  slots take \<open>0\<close> for the minimum year and do what they do for the text \<^verbatim>\<open>0\<close>,
  and likewise for the minimum ratings count; with both texts so, neither slot shows a
  warning. On a dataset whose years and ratings counts are not negative, the minima
  \<open>0\<close> keep the rows that any lower minima keep: there they restrict nothing.
\<close>

theorem blank_minimum_is_zero:
  "(strip R (input_year w) = [] \<longrightarrow>
      outcome (apply_filter R w) = outcome (apply_filter R (w\<lparr>input_year := str ''0''\<rparr>))
      \<and> outcome (suggest_random R k w)
          = outcome (suggest_random R k (w\<lparr>input_year := str ''0''\<rparr>))
      \<and> (\<forall>r. int_or_zero R (strip R (input_ratings w)) = Some r \<longrightarrow>
            apply_filter R w = show_filtered R (combo_genre w) 0 r w
            \<and> suggest_random R k w = pick_and_show R k (combo_genre w) 0 r w))
   \<and> (strip R (input_ratings w) = [] \<longrightarrow>
      outcome (apply_filter R w) = outcome (apply_filter R (w\<lparr>input_ratings := str ''0''\<rparr>))
      \<and> outcome (suggest_random R k w)
          = outcome (suggest_random R k (w\<lparr>input_ratings := str ''0''\<rparr>))
      \<and> (\<forall>y. int_or_zero R (strip R (input_year w)) = Some y \<longrightarrow>
            apply_filter R w = show_filtered R (combo_genre w) y 0 w
            \<and> suggest_random R k w = pick_and_show R k (combo_genre w) y 0 w))
   \<and> (strip R (input_year w) = [] \<and> strip R (input_ratings w) = [] \<longrightarrow>
      (\<forall>a b. fst (apply_filter R w) \<noteq> Inr (Some (Warning a b))
         \<and> fst (suggest_random R k w) \<noteq> Inr (Some (Warning a b))))
   \<and> ((\<forall>b\<in>set d. nonneg_fields b) \<and> y \<le> 0 \<and> r \<le> 0 \<longrightarrow>
      apply_filter_rows R g 0 0 d = apply_filter_rows R g y r d
      \<and> suggest_random_rows R g 0 0 d = suggest_random_rows R g y r d)"
proof (intro conjI impI)
  assume "strip R (input_year w) = []"
  then show "outcome (apply_filter R w)
      = outcome (apply_filter R (w\<lparr>input_year := str ''0''\<rparr>))"
    by (simp add: outcome_def apply_filter_def show_filtered_def int_or_zero_Nil int_or_zero_0
        split: option.splits sum.splits)
next
  assume "strip R (input_year w) = []"
  then show "outcome (suggest_random R k w)
      = outcome (suggest_random R k (w\<lparr>input_year := str ''0''\<rparr>))"
    by (simp add: outcome_def suggest_random_def pick_and_show_def int_or_zero_Nil
        int_or_zero_0 split: option.splits sum.splits)
next
  assume "strip R (input_year w) = []"
  then show "\<forall>r. int_or_zero R (strip R (input_ratings w)) = Some r \<longrightarrow>
            apply_filter R w = show_filtered R (combo_genre w) 0 r w
            \<and> suggest_random R k w = pick_and_show R k (combo_genre w) 0 r w"
    by (simp add: apply_filter_def suggest_random_def int_or_zero_Nil)
next
  assume "strip R (input_ratings w) = []"
  then show "outcome (apply_filter R w)
      = outcome (apply_filter R (w\<lparr>input_ratings := str ''0''\<rparr>))"
    by (simp add: outcome_def apply_filter_def show_filtered_def int_or_zero_Nil int_or_zero_0
        split: option.splits sum.splits)
next
  assume "strip R (input_ratings w) = []"
  then show "outcome (suggest_random R k w)
      = outcome (suggest_random R k (w\<lparr>input_ratings := str ''0''\<rparr>))"
    by (simp add: outcome_def suggest_random_def pick_and_show_def int_or_zero_Nil
        int_or_zero_0 split: option.splits sum.splits)
next
  assume "strip R (input_ratings w) = []"
  then show "\<forall>y. int_or_zero R (strip R (input_year w)) = Some y \<longrightarrow>
            apply_filter R w = show_filtered R (combo_genre w) y 0 w
            \<and> suggest_random R k w = pick_and_show R k (combo_genre w) y 0 w"
    by (simp add: apply_filter_def suggest_random_def int_or_zero_Nil)
next
  assume "strip R (input_year w) = [] \<and> strip R (input_ratings w) = []"
  then show "\<forall>a b. fst (apply_filter R w) \<noteq> Inr (Some (Warning a b))
         \<and> fst (suggest_random R k w) \<noteq> Inr (Some (Warning a b))"
    by (simp add: apply_filter_def suggest_random_def show_filtered_def pick_and_show_def
        int_or_zero_Nil split: sum.splits)
next
  assume h: "(\<forall>b\<in>set d. nonneg_fields b) \<and> y \<le> 0 \<and> r \<le> 0"
  then have "\<forall>b\<in>set d. (0 \<le> Publication_Year b \<and> 0 \<le> Ratings b)
      = (y \<le> Publication_Year b \<and> r \<le> Ratings b)"
    by (auto simp: nonneg_fields_def)
  then show "apply_filter_rows R g 0 0 d = apply_filter_rows R g y r d"
    by (auto simp: apply_filter_rows_def split: sum.splits intro!: filter_cong)
  then show "suggest_random_rows R g 0 0 d = suggest_random_rows R g y r d"
    by (simp add: rows_same)
qed

theorem blank_minimum_is_zero_witness:
  "strip runtime_example (input_year window_blank) = []
   \<and> strip runtime_example (input_ratings window_blank) = []
   \<and> outcome (apply_filter runtime_example window_blank)
       = outcome (apply_filter runtime_example (window_blank\<lparr>input_year := str ''0''\<rparr>))
   \<and> apply_filter runtime_example window_blank
       = show_filtered runtime_example (combo_genre window_blank) 0 0 window_blank
   \<and> fst (apply_filter runtime_example window_blank)
       \<noteq> Inr (Some (Warning (str ''Input Error'') (str ''Year must be an integer.'')))
   \<and> apply_filter_rows runtime_example [] 0 0 [book_T1, book_T2]
       = apply_filter_rows runtime_example [] (- 5) (- 1) [book_T1, book_T2]"
proof -
  have h1: "strip runtime_example (input_year window_blank) = []"
    by code_simp
  have h2: "strip runtime_example (input_ratings window_blank) = []"
    by code_simp
  have h3: "\<forall>b\<in>set [book_T1, book_T2]. nonneg_fields b"
    by (simp add: nonneg_fields_def book_T1_def book_T2_def)
  have h4: "(- 5 :: int) \<le> 0 \<and> (- 1 :: int) \<le> 0"
    by simp
  have h5: "int_or_zero runtime_example (strip runtime_example (input_ratings window_blank))
      = Some 0"
    by code_simp
  from blank_minimum_is_zero [where R = runtime_example and w = window_blank and k = 7
      and d = "[book_T1, book_T2]" and y = "- 5" and r = "- 1" and g = "[]"] h1 h2 h3 h4 h5
  show ?thesis by blast
qed

text \<open>
  The claim as stated fails: with both texts empty the minimum \<open>0\<close> of the ratings
  count is a restriction. Start-up builds a dataset of one row from an item whose
  ratings count is \<open>-1\<close>, and \<open>apply_filter\<close> then finds no books.
\<close>

theorem blank_minimum_restricts:
  "main runtime_example
     (Json [\<lparr>title = Some (str ''T4''), authors = Some [str ''A4''],
        publishedDate = Some (str ''1999''), categories = Some [str ''Fiction''],
        ratingsCount = Some (- 1)\<rparr>])
     (Json [\<lparr>title = Some (str ''T4''), authors = Some [str ''A4''],
        publishedDate = Some (str ''1999''), categories = Some [str ''Fiction''],
        ratingsCount = Some (- 1)\<rparr>])
   = Inr [\<lparr>Title = str ''T4'', Authors = str ''A4'', Genre = str ''Fiction'',
        Publication_Year = 1999, Ratings = - 1\<rparr>]
   \<and> apply_filter runtime_example
       \<lparr>df = [\<lparr>Title = str ''T4'', Authors = str ''A4'', Genre = str ''Fiction'',
          Publication_Year = 1999, Ratings = - 1\<rparr>],
        combo_genre = [], input_year = [], input_ratings = [], text_area = []\<rparr>
     = (Inr None,
        \<lparr>df = [\<lparr>Title = str ''T4'', Authors = str ''A4'', Genre = str ''Fiction'',
          Publication_Year = 1999, Ratings = - 1\<rparr>],
        combo_genre = [], input_year = [], input_ratings = [],
        text_area = str ''No books found with these filters.''\<rparr>)"
  by code_simp

text \<open>The same holds with every runtime.\<close>

lemma blank_minimum_restricts_any:
  "apply_filter R
       \<lparr>df = [\<lparr>Title = str ''T4'', Authors = str ''A4'', Genre = str ''Fiction'',
          Publication_Year = 1999, Ratings = - 1\<rparr>],
        combo_genre = [], input_year = [], input_ratings = [], text_area = []\<rparr>
     = (Inr None,
        \<lparr>df = [\<lparr>Title = str ''T4'', Authors = str ''A4'', Genre = str ''Fiction'',
          Publication_Year = 1999, Ratings = - 1\<rparr>],
        combo_genre = [], input_year = [], input_ratings = [],
        text_area = str ''No books found with these filters.''\<rparr>)"
  by code_simp

end
